theory Spec2Isabelle
  imports Main
begin

section \<open>Python values, raised exceptions and the outcome of a call\<close>

text \<open>
  The three agents exchange plain Python data: dictionaries (the conversation state, the
  result envelopes, the content blocks of a message), lists, strings and message objects
  of the chat framework. A dictionary with string keys is an association list read with
  \<^const>\<open>map_of\<close>; a message object \<open>VMsg cls c\<close> has the class name \<open>cls\<close> and the
  attribute \<open>content = c\<close>. A \<^typ>\<open>char\<close> stands for one code point below 256.
\<close>

datatype py_value =
    VNone
  | VBool bool
  | VInt int
  | VStr string
  | VList "py_value list"
  | VDict "(string \<times> py_value) list"
  | VMsg string py_value

type_synonym py_dict = "(string \<times> py_value) list"

text \<open>
  What a \<open>raise\<close> carries: the class name and the text \<open>str(e)\<close>. \<open>PyException\<close> are
  the instances of \<open>Exception\<close>, the ones an \<open>except Exception\<close> clause catches;
  \<open>PyBaseException\<close> are the others (\<open>KeyboardInterrupt\<close>, \<open>SystemExit\<close>,
  \<open>asyncio.CancelledError\<close>), which such a clause lets through.
\<close>

datatype py_raise =
    PyException string string
  | PyBaseException string string

text \<open>A call returns a value, raises, or never hands control back.\<close>

datatype 'a outcome = Returns 'a | Raises py_raise | Diverges

fun py_type_name :: "py_value \<Rightarrow> string" where
  "py_type_name VNone = ''NoneType''"
| "py_type_name (VBool b) = ''bool''"
| "py_type_name (VInt i) = ''int''"
| "py_type_name (VStr s) = ''str''"
| "py_type_name (VList xs) = ''list''"
| "py_type_name (VDict d) = ''dict''"
| "py_type_name (VMsg cls c) = cls"

definition quoted :: "string \<Rightarrow> string" where
  "quoted s = CHR 0x27 # s @ [CHR 0x27]"

text \<open>\<open>obj.name\<close> on an object without that attribute.\<close>

definition AttributeError :: "py_value \<Rightarrow> string \<Rightarrow> py_raise" where
  "AttributeError v name =
     PyException ''AttributeError''
       (quoted (py_type_name v) @ '' object has no attribute '' @ quoted name)"

definition not_subscriptable :: "py_value \<Rightarrow> py_raise" where
  "not_subscriptable v =
     PyException ''TypeError'' (quoted (py_type_name v) @ '' object is not subscriptable'')"

text \<open>\<open>d.get(k, default)\<close> and \<open>d[k]\<close> on a dictionary.\<close>

definition dict_get :: "py_dict \<Rightarrow> string \<Rightarrow> py_value \<Rightarrow> py_value" where
  "dict_get d k dflt = (case map_of d k of None \<Rightarrow> dflt | Some v \<Rightarrow> v)"

definition dict_getitem :: "py_dict \<Rightarrow> string \<Rightarrow> py_value outcome" where
  "dict_getitem d k =
     (case map_of d k of
        None \<Rightarrow> Raises (PyException ''KeyError'' (quoted k))
      | Some v \<Rightarrow> Returns v)"

text \<open>\<open>v[-1]\<close>: the last element of a list or string, an error on everything else.\<close>

fun getitem_last :: "py_value \<Rightarrow> py_value outcome" where
  "getitem_last (VList xs) =
     (if xs = [] then Raises (PyException ''IndexError'' ''list index out of range'')
      else Returns (last xs))"
| "getitem_last (VStr s) =
     (if s = [] then Raises (PyException ''IndexError'' ''string index out of range'')
      else Returns (VStr [last s]))"
| "getitem_last (VDict d) = Raises (PyException ''KeyError'' ''-1'')"
| "getitem_last v = Raises (not_subscriptable v)"

text \<open>\<open>message.content\<close>.\<close>

fun get_content :: "py_value \<Rightarrow> py_value outcome" where
  "get_content (VMsg cls c) = Returns c"
| "get_content v = Raises (AttributeError v ''content'')"

subsection \<open>Strings\<close>

text \<open>
  \<open>str.strip()\<close> without arguments removes leading and trailing whitespace; below code
  point 256 the whitespace characters of \<open>str\<close> are the ones listed here.
\<close>

definition isspace :: "char \<Rightarrow> bool" where
  "isspace c = ((of_char c :: nat) \<in> {9, 10, 11, 12, 13, 28, 29, 30, 31, 32, 133, 160})"

definition py_strip :: "string \<Rightarrow> string" where
  "py_strip s = rev (dropWhile isspace (rev (dropWhile isspace s)))"

fun py_join :: "string \<Rightarrow> string list \<Rightarrow> string" where
  "py_join sep [] = []"
| "py_join sep [x] = x"
| "py_join sep (x # y # ys) = x @ sep @ py_join sep (y # ys)"

text \<open>
  \<open>str(v)\<close>: a string is its own text; for every other value the text is the
  interpreter's, taken as the parameter \<open>builtin_str\<close>.
\<close>

definition py_str :: "(py_value \<Rightarrow> string) \<Rightarrow> py_value \<Rightarrow> string" where
  "py_str builtin_str v = (case v of VStr s \<Rightarrow> s | _ \<Rightarrow> builtin_str v)"

section \<open>learner\_agent.py: \_extract\_text\_from\_message\<close>

text \<open>
  The loop over the content blocks appends one part per block: \<open>block.get("text", "")\<close>
  for a dict, the block itself for a string, \<open>str(block)\<close> for anything else.
\<close>

fun block_part :: "(py_value \<Rightarrow> string) \<Rightarrow> py_value \<Rightarrow> py_value" where
  "block_part builtin_str (VDict d) = dict_get d ''text'' (VStr '''')"
| "block_part builtin_str (VStr s) = VStr s"
| "block_part builtin_str block = VStr (py_str builtin_str block)"

text \<open>
  The generator \<open>p for p in parts if p.strip()\<close>, consumed from left to right: a part that
  is a string is kept when its stripped text is non-empty; a part that is no string has no
  \<open>strip\<close> and the call raises there.
\<close>

fun keep_parts :: "py_value list \<Rightarrow> string list outcome" where
  "keep_parts [] = Returns []"
| "keep_parts (VStr s # ps) =
     (case keep_parts ps of
        Returns ks \<Rightarrow> Returns (if py_strip s \<noteq> [] then s # ks else ks)
      | Raises e \<Rightarrow> Raises e
      | Diverges \<Rightarrow> Diverges)"
| "keep_parts (p # ps) = Raises (AttributeError p ''strip'')"

definition extract_text_from_message ::
    "(py_value \<Rightarrow> string) \<Rightarrow> py_value \<Rightarrow> py_value outcome" where
  "extract_text_from_message builtin_str message =
     (case get_content message of
        Returns content \<Rightarrow>
          (case content of
             VList blocks \<Rightarrow>
               (case keep_parts (map (block_part builtin_str) blocks) of
                  Returns ks \<Rightarrow> Returns (VStr (py_join [CHR 0x0A] ks))
                | Raises e \<Rightarrow> Raises e
                | Diverges \<Rightarrow> Diverges)
           | _ \<Rightarrow> Returns content)
      | Raises e \<Rightarrow> Raises e
      | Diverges \<Rightarrow> Diverges)"

section \<open>The external capabilities and the effects of a call\<close>

text \<open>
  The prompt handed to the model: one of the three templates of the source, with the text
  put in place of its \<open>{context}\<close> or \<open>{intent}\<close> field. The template of the
  explainer has no field, so \<open>format\<close> returns it as it is.
\<close>

datatype prompt =
    EXPLAINER_AGENT_PROMPT
  | LEARNER_AGENT_PROMPT string
  | ORCHESTRATOR_PROMPT string

text \<open>
  One run of an agent built by the framework (\<open>create_agent\<close>,
  \<open>create_react_agent\<close>): what \<open>invoke\<close> gives back, and the tools the run called on
  its way, each with the flag whether that call failed. What \<open>invoke\<close> returns is the
  state of the run, a dictionary. The loop that plans, calls tools and stops is the
  framework's; the source only starts it.
\<close>

datatype tool_call = ToolCall (tool_name: string) (tool_failed: bool)

record agent_run =
  run_result :: "py_dict outcome"
  run_tool_calls :: "tool_call list"

text \<open>
  Everything the agents use and the source files do not define: the interpreter's
  \<open>str\<close>, the context helper of \<open>app.agents.state\<close>, the chat model, the tool lists
  and the two agent constructors with their \<open>invoke\<close>. The context helper and the tool
  lists are formatting and configuration and are taken to return; a call of the model or
  an agent run may return, raise, or not come back.
\<close>

record env =
  builtin_str :: "py_value \<Rightarrow> string"
  get_conversation_context :: "py_dict \<Rightarrow> string"
  model_ainvoke :: "prompt \<Rightarrow> string \<Rightarrow> py_value outcome"
  get_learner_tools :: "string list"
  create_agent_ainvoke :: "prompt \<Rightarrow> string list \<Rightarrow> py_dict \<Rightarrow> agent_run"
  get_agent_tools :: "string list"
  create_react_agent_invoke :: "prompt \<Rightarrow> string list \<Rightarrow> py_dict \<Rightarrow> agent_run"

text \<open>
  The calls that leave the process, in the order they are made: \<open>ModelCall p q\<close> is
  \<open>model.ainvoke([SystemMessage(p), HumanMessage(q)])\<close>, \<open>AgentRun p tools input\<close>
  the start of an agent run, \<open>ToolUse c\<close> a tool call made inside that run.
\<close>

datatype event =
    ModelCall prompt string
  | AgentRun prompt "string list" py_dict
  | ToolUse tool_call

type_synonym 'a io = "'a outcome \<times> event list"

definition step :: "'a outcome \<Rightarrow> 'a io" where
  "step r = (r, [])"

definition model_step :: "env \<Rightarrow> prompt \<Rightarrow> string \<Rightarrow> py_value io" where
  "model_step E p q = (model_ainvoke E p q, [ModelCall p q])"

definition agent_step :: "prompt \<Rightarrow> string list \<Rightarrow> py_dict \<Rightarrow> agent_run \<Rightarrow> py_dict io" where
  "agent_step p tools input run =
     (run_result run, AgentRun p tools input # map ToolUse (run_tool_calls run))"

text \<open>Statements in sequence: the rest runs only when the first one returned.\<close>

definition then_do :: "'a io \<Rightarrow> ('a \<Rightarrow> 'b io) \<Rightarrow> 'b io" where
  "then_do m f =
     (case fst m of
        Returns x \<Rightarrow> (fst (f x), snd m @ snd (f x))
      | Raises e \<Rightarrow> (Raises e, snd m)
      | Diverges \<Rightarrow> (Diverges, snd m))"

text \<open>The two dictionaries every \<open>process_query\<close> returns.\<close>

definition success_result :: "string \<Rightarrow> py_value \<Rightarrow> py_dict" where
  "success_result result_key v =
     [(''success'', VBool True), (result_key, v), (''error'', VList [])]"

definition failure_result :: "string \<Rightarrow> string \<Rightarrow> py_dict" where
  "failure_result result_key msg =
     [(''success'', VBool False), (result_key, VNone), (''error'', VList [VStr msg])]"

text \<open>
  \<open>try: ... except Exception as e: return {... "error": [str(e)]}\<close> around a body.
\<close>

definition except_Exception :: "string \<Rightarrow> py_dict io \<Rightarrow> py_dict io" where
  "except_Exception result_key m =
     (case fst m of
        Raises (PyException cls msg) \<Rightarrow> (Returns (failure_result result_key msg), snd m)
      | _ \<Rightarrow> m)"

text \<open>\<open>get_conversation_context(state) if state else ""\<close>.\<close>

definition conversation_context :: "env \<Rightarrow> py_dict option \<Rightarrow> string" where
  "conversation_context E state =
     (case state of
        None \<Rightarrow> []
      | Some d \<Rightarrow> if d = [] then [] else get_conversation_context E d)"

section \<open>explainer\_agent.py\<close>

definition explainer_get_result_key :: string where
  "explainer_get_result_key = ''explainer_agent_result''"

definition explainer_get_prompt :: "env \<Rightarrow> py_dict option \<Rightarrow> prompt" where
  "explainer_get_prompt E state =
     (let context = conversation_context E state in EXPLAINER_AGENT_PROMPT)"

definition explainer_process_query :: "env \<Rightarrow> string \<Rightarrow> py_dict option \<Rightarrow> py_dict io" where
  "explainer_process_query E query state =
     except_Exception explainer_get_result_key
       (let prompt = explainer_get_prompt E state in
        then_do (model_step E prompt query) (\<lambda>response.
        then_do (step (get_content response)) (\<lambda>content.
        step (Returns (success_result explainer_get_result_key content)))))"

section \<open>learner\_agent.py\<close>

definition learner_get_result_key :: string where
  "learner_get_result_key = ''learner_agent_result''"

definition learner_get_prompt :: "env \<Rightarrow> py_dict option \<Rightarrow> prompt" where
  "learner_get_prompt E state =
     (let context = conversation_context E state in LEARNER_AGENT_PROMPT context)"

text \<open>The input of the run: \<open>{"messages": [HumanMessage(content=query)]}\<close>.\<close>

definition learner_input :: "string \<Rightarrow> py_dict" where
  "learner_input query = [(''messages'', VList [VMsg ''HumanMessage'' (VStr query)])]"

definition learner_process_query :: "env \<Rightarrow> string \<Rightarrow> py_dict option \<Rightarrow> py_dict io" where
  "learner_process_query E query state =
     except_Exception learner_get_result_key
       (let prompt = learner_get_prompt E state;
            tools = get_learner_tools E;
            input = learner_input query in
        then_do (agent_step prompt tools input (create_agent_ainvoke E prompt tools input))
          (\<lambda>result.
        then_do (step (dict_getitem result ''messages'')) (\<lambda>messages.
        then_do (step (getitem_last messages)) (\<lambda>final_message.
        then_do (step (extract_text_from_message (builtin_str E) final_message))
          (\<lambda>final_output.
        step (Returns (success_result learner_get_result_key final_output)))))))"

section \<open>orchestrator\_agent.py\<close>

definition orchestrator_get_prompt :: "env \<Rightarrow> py_dict option \<Rightarrow> prompt" where
  "orchestrator_get_prompt E state =
     (let intent =
        (case state of
           None \<Rightarrow> VStr ''unknown''
         | Some d \<Rightarrow> if d = [] then VStr ''unknown''
                     else dict_get d ''user_intent'' (VStr ''unknown''))
      in ORCHESTRATOR_PROMPT (py_str (builtin_str E) intent))"

text \<open>
  The input of the run: \<open>{"messages": state.get("messages", []) if state else []}\<close>.
  The parameter \<open>query\<close> is not read.
\<close>

definition orchestrator_input :: "py_dict option \<Rightarrow> py_dict" where
  "orchestrator_input state =
     [(''messages'',
       (case state of
          None \<Rightarrow> VList []
        | Some d \<Rightarrow> if d = [] then VList [] else dict_get d ''messages'' (VList [])))]"

definition orchestrator_process_query :: "env \<Rightarrow> string \<Rightarrow> py_dict option \<Rightarrow> py_dict io" where
  "orchestrator_process_query E query state =
     except_Exception ''orchestrator_result''
       (let tools = get_agent_tools E;
            prompt = orchestrator_get_prompt E state;
            input = orchestrator_input state in
        then_do (agent_step prompt tools input (create_react_agent_invoke E prompt tools input))
          (\<lambda>result.
        step (Returns
          [(''success'', VBool True),
           (''orchestrator_result'', VDict result),
           (''messages'', dict_get result ''messages'' (VList [])),
           (''error'', VList [])])))"

section \<open>Notions used to state the properties\<close>

text \<open>The agent run each \<open>process_query\<close> starts.\<close>

abbreviation learner_run :: "env \<Rightarrow> string \<Rightarrow> py_dict option \<Rightarrow> agent_run" where
  "learner_run E query state \<equiv>
     create_agent_ainvoke E (learner_get_prompt E state) (get_learner_tools E) (learner_input query)"

abbreviation orchestrator_run :: "env \<Rightarrow> py_dict option \<Rightarrow> agent_run" where
  "orchestrator_run E state \<equiv>
     create_react_agent_invoke E (orchestrator_get_prompt E state) (get_agent_tools E)
       (orchestrator_input state)"

text \<open>
  The statements of the learner after its run has returned \<open>result\<close>:
  \<open>_extract_text_from_message(result["messages"][-1])\<close>.
\<close>

definition learner_final_output :: "env \<Rightarrow> py_dict \<Rightarrow> py_value outcome" where
  "learner_final_output E result =
     (case dict_getitem result ''messages'' of
        Returns messages \<Rightarrow>
          (case getitem_last messages of
             Returns final_message \<Rightarrow> extract_text_from_message (builtin_str E) final_message
           | Raises e \<Rightarrow> Raises e
           | Diverges \<Rightarrow> Diverges)
      | Raises e \<Rightarrow> Raises e
      | Diverges \<Rightarrow> Diverges)"

text \<open>The dictionary the orchestrator returns after its run has returned \<open>result\<close>.\<close>

definition orchestrator_success :: "py_dict \<Rightarrow> py_dict" where
  "orchestrator_success result =
     [(''success'', VBool True),
      (''orchestrator_result'', VDict result),
      (''messages'', dict_get result ''messages'' (VList [])),
      (''error'', VList [])]"

text \<open>
  The invariant of a result envelope in the words of the specification: without success
  the payload (the entry under the agent's result key) is \<open>None\<close> and the error list
  is not empty; with success the error list is empty.
\<close>

definition envelope_invariant :: "string \<Rightarrow> py_dict \<Rightarrow> bool" where
  "envelope_invariant result_key d =
     (case map_of d ''success'' of
        Some (VBool False) \<Rightarrow>
          map_of d result_key = Some VNone \<and>
          (case map_of d ''error'' of Some (VList (e # es)) \<Rightarrow> True | _ \<Rightarrow> False)
      | Some (VBool True) \<Rightarrow> map_of d ''error'' = Some (VList [])
      | _ \<Rightarrow> False)"

text \<open>
  The responders a turn selected: the names of the tools its run called (the tools of the
  orchestrator are the two teaching agents).
\<close>

fun selected_agents :: "event list \<Rightarrow> string list" where
  "selected_agents [] = []"
| "selected_agents (ToolUse c # evs) = tool_name c # selected_agents evs"
| "selected_agents (ev # evs) = selected_agents evs"

text \<open>
  The signals of the DECISION RULES in \<open>ORCHESTRATOR_PROMPT\<close>, as far as they are plain
  ASCII phrases, and the test whether an utterance contains one of them.
\<close>

fun starts_with :: "string \<Rightarrow> string \<Rightarrow> bool" where
  "starts_with s [] = True"
| "starts_with [] (c # p) = False"
| "starts_with (x # s) (c # p) = (x = c \<and> starts_with s p)"

fun contains :: "string \<Rightarrow> string \<Rightarrow> bool" where
  "contains [] p = (p = [])"
| "contains (x # s) p = (starts_with (x # s) p \<or> contains s p)"

definition explainer_signals :: "string list" where
  "explainer_signals = [''explain simply'', ''teach from basics'']"

definition learner_signals :: "string list" where
  "learner_signals =
     [''exams'', ''16 marks'', ''important questions'', ''university'', ''competitive exams'',
      ''notes'', ''revision'', ''deep understanding'']"

definition mentions :: "string list \<Rightarrow> string \<Rightarrow> bool" where
  "mentions signals utterance = (\<exists>p \<in> set signals. contains utterance p)"

section \<open>Example environments\<close>

text \<open>
  Concrete collaborators on which the properties are evaluated: a model and two agent
  runs that answer, and variants in which one of them fails, is cancelled, or calls a
  particular tool.
\<close>

fun str_of_atoms :: "py_value \<Rightarrow> string" where
  "str_of_atoms VNone = ''None''"
| "str_of_atoms (VBool b) = (if b then ''True'' else ''False'')"
| "str_of_atoms (VStr s) = s"
| "str_of_atoms v = ''<object>''"

definition answer_messages :: "string \<Rightarrow> py_value" where
  "answer_messages text =
     VList [VMsg ''AIMessage'' (VList [VDict [(''type'', VStr ''text''), (''text'', VStr text)]])]"

definition answer_run :: "string \<Rightarrow> tool_call list \<Rightarrow> agent_run" where
  "answer_run text calls =
     \<lparr>run_result = Returns [(''messages'', answer_messages text)], run_tool_calls = calls\<rparr>"

definition failed_run :: "py_raise \<Rightarrow> tool_call list \<Rightarrow> agent_run" where
  "failed_run e calls = \<lparr>run_result = Raises e, run_tool_calls = calls\<rparr>"

definition clarifying_question :: string where
  "clarifying_question =
     ''Would you like a simple explanation or an exam-focused detailed answer?''"

definition E_ok :: env where
  "E_ok =
     \<lparr>builtin_str = str_of_atoms,
      get_conversation_context = (\<lambda>d. ''User: what is an API?''),
      model_ainvoke = (\<lambda>p q. Returns (VMsg ''AIMessage'' (VStr ''An API is like a waiter.''))),
      get_learner_tools = [''firecrawl_search''],
      create_agent_ainvoke = (\<lambda>p tools input. answer_run ''Deadlock is a situation ...'' []),
      get_agent_tools = [''explainer_agent'', ''learner_agent''],
      create_react_agent_invoke = (\<lambda>p tools input. answer_run clarifying_question [])\<rparr>"

definition E_blocks :: env where
  "E_blocks =
     E_ok\<lparr>model_ainvoke := (\<lambda>p q. Returns (VMsg ''AIMessage''
       (VList [VDict [(''type'', VStr ''text''), (''text'', VStr ''An API is like a waiter.'')]])))\<rparr>"

definition quota_error :: py_raise where
  "quota_error = PyException ''ResourceExhausted'' ''429 quota exceeded''"

definition E_quota :: env where
  "E_quota =
     E_ok\<lparr>model_ainvoke := (\<lambda>p q. Raises quota_error),
          create_agent_ainvoke := (\<lambda>p tools input. failed_run quota_error []),
          create_react_agent_invoke := (\<lambda>p tools input. failed_run quota_error [])\<rparr>"

definition cancelled :: py_raise where
  "cancelled = PyBaseException ''CancelledError'' []"

definition E_cancelled :: env where
  "E_cancelled =
     E_ok\<lparr>model_ainvoke := (\<lambda>p q. Raises cancelled),
          create_agent_ainvoke := (\<lambda>p tools input. failed_run cancelled [])\<rparr>"

definition recursion_limit_text :: string where
  "recursion_limit_text = ''Recursion limit reached without hitting a stop condition.''"

definition E_recursion_limit :: env where
  "E_recursion_limit =
     E_ok\<lparr>create_agent_ainvoke := (\<lambda>p tools input.
       failed_run (PyException ''GraphRecursionError'' recursion_limit_text)
         (replicate 12 (ToolCall ''firecrawl_search'' False)))\<rparr>"

definition E_unknown_intent :: env where
  "E_unknown_intent =
     E_ok\<lparr>create_react_agent_invoke := (\<lambda>p tools input.
       failed_run (PyException ''UnknownIntentError'' ''no responder for intent unclear'') [])\<rparr>"

definition E_tool_failure :: env where
  "E_tool_failure =
     E_ok\<lparr>create_agent_ainvoke := (\<lambda>p tools input.
       failed_run (PyException ''ToolException'' ''firecrawl request failed'')
         [ToolCall ''firecrawl_search'' True])\<rparr>"

definition E_tool_failure_absorbed :: env where
  "E_tool_failure_absorbed =
     E_ok\<lparr>create_agent_ainvoke := (\<lambda>p tools input.
       answer_run ''Deadlock is a situation ...'' [ToolCall ''firecrawl_search'' True])\<rparr>"

definition E_picks_explainer :: env where
  "E_picks_explainer =
     E_ok\<lparr>create_react_agent_invoke := (\<lambda>p tools input.
       answer_run ''Imagine a restaurant ...'' [ToolCall ''explainer_agent'' False])\<rparr>"

definition E_picks_learner :: env where
  "E_picks_learner =
     E_ok\<lparr>create_react_agent_invoke := (\<lambda>p tools input.
       answer_run ''Deadlock is a situation ...'' [ToolCall ''learner_agent'' False])\<rparr>"

definition state_with_utterance :: "string \<Rightarrow> py_dict" where
  "state_with_utterance u = [(''messages'', VList [VMsg ''HumanMessage'' (VStr u)])]"

definition both_signals :: string where
  "both_signals = ''explain simply, I have exams next week''"

section \<open>Properties of \_extract\_text\_from\_message\<close>

lemma py_strip_nonempty_iff: "py_strip s \<noteq> [] \<longleftrightarrow> (\<exists>c \<in> set s. \<not> isspace c)"
proof -
  have "py_strip s \<noteq> [] \<longleftrightarrow> dropWhile isspace (rev (dropWhile isspace s)) \<noteq> []"
    by (simp add: py_strip_def)
  also have "\<dots> \<longleftrightarrow> (\<exists>c \<in> set (dropWhile isspace s). \<not> isspace c)"
    by (simp add: dropWhile_eq_Nil_conv)
  also have "\<dots> \<longleftrightarrow> (\<exists>c \<in> set s. \<not> isspace c)"
  proof
    assume "\<exists>c \<in> set (dropWhile isspace s). \<not> isspace c"
    then show "\<exists>c \<in> set s. \<not> isspace c"
      using set_dropWhileD by fastforce
  next
    assume "\<exists>c \<in> set s. \<not> isspace c"
    then have nonempty: "dropWhile isspace s \<noteq> []"
      by (simp add: dropWhile_eq_Nil_conv)
    then have "\<not> isspace (hd (dropWhile isspace s))"
      by (rule hd_dropWhile)
    moreover have "hd (dropWhile isspace s) \<in> set (dropWhile isspace s)"
      using nonempty by simp
    ultimately show "\<exists>c \<in> set (dropWhile isspace s). \<not> isspace c"
      by blast
  qed
  finally show ?thesis .
qed

text \<open>
  When every part is a string, nothing raises and the kept parts are the ones with a
  character that is not whitespace, in their order.
\<close>

lemma keep_parts_strings:
  "keep_parts (map VStr ss) = Returns (filter (\<lambda>s. \<exists>c \<in> set s. \<not> isspace c) ss)"
  by (induction ss) (simp_all add: py_strip_nonempty_iff)

lemma extract_text_of_string_parts:
  "map (block_part str_of) blocks = map VStr ss \<Longrightarrow>
   extract_text_from_message str_of (VMsg cls (VList blocks))
     = Returns (VStr (py_join [CHR 0x0A] (filter (\<lambda>s. \<exists>c \<in> set s. \<not> isspace c) ss)))"
  by (simp add: extract_text_from_message_def keep_parts_strings)

lemma extract_text_of_other_content:
  "(\<forall>blocks. content \<noteq> VList blocks) \<Longrightarrow>
   extract_text_from_message str_of (VMsg cls content) = Returns content"
  by (cases content) (simp_all add: extract_text_from_message_def)

lemma keep_parts_not_Diverges: "keep_parts ps \<noteq> Diverges"
  by (induction ps rule: keep_parts.induct) (auto split: outcome.splits)

lemma keep_parts_raises_Exception:
  "keep_parts ps = Raises e \<Longrightarrow> \<exists>cls msg. e = PyException cls msg"
  by (induction ps rule: keep_parts.induct) (auto simp: AttributeError_def split: outcome.splits)

lemma get_content_not_Diverges: "get_content v \<noteq> Diverges"
  by (cases v) simp_all

lemma get_content_raises_Exception:
  "get_content v = Raises e \<Longrightarrow> \<exists>cls msg. e = PyException cls msg"
  by (cases v) (auto simp: AttributeError_def)

lemma extract_not_Diverges: "extract_text_from_message str_of m \<noteq> Diverges"
  using keep_parts_not_Diverges get_content_not_Diverges
  by (auto simp: extract_text_from_message_def split: outcome.splits py_value.splits)

lemma extract_raises_Exception:
  "extract_text_from_message str_of m = Raises e \<Longrightarrow> \<exists>cls msg. e = PyException cls msg"
  using keep_parts_raises_Exception get_content_raises_Exception
  by (auto simp: extract_text_from_message_def split: outcome.splits py_value.splits)

lemma getitem_last_not_Diverges: "getitem_last v \<noteq> Diverges"
  by (cases v) simp_all

lemma getitem_last_raises_Exception:
  "getitem_last v = Raises e \<Longrightarrow> \<exists>cls msg. e = PyException cls msg"
  by (cases v) (auto simp: not_subscriptable_def split: if_splits)

lemma dict_getitem_not_Diverges: "dict_getitem d k \<noteq> Diverges"
  by (simp add: dict_getitem_def split: option.splits)

lemma dict_getitem_raises_Exception:
  "dict_getitem d k = Raises e \<Longrightarrow> \<exists>cls msg. e = PyException cls msg"
  by (auto simp: dict_getitem_def split: option.splits)

section \<open>What each process\_query does with the outcome of its external call\<close>

lemmas io_defs = step_def model_step_def agent_step_def then_do_def except_Exception_def Let_def

subsection \<open>The explainer\<close>

lemma explainer_trace:
  "snd (explainer_process_query E q st) = [ModelCall EXPLAINER_AGENT_PROMPT q]"
  by (auto simp: explainer_process_query_def explainer_get_prompt_def io_defs
      split: outcome.splits py_raise.splits)

lemma explainer_raises:
  "model_ainvoke E EXPLAINER_AGENT_PROMPT q = Raises (PyException cls msg) \<Longrightarrow>
   fst (explainer_process_query E q st) = Returns (failure_result explainer_get_result_key msg)"
  by (simp add: explainer_process_query_def explainer_get_prompt_def io_defs)

lemma explainer_returns:
  "model_ainvoke E EXPLAINER_AGENT_PROMPT q = Returns (VMsg cls out) \<Longrightarrow>
   fst (explainer_process_query E q st) = Returns (success_result explainer_get_result_key out)"
  by (simp add: explainer_process_query_def explainer_get_prompt_def io_defs)

lemma explainer_propagates:
  "model_ainvoke E EXPLAINER_AGENT_PROMPT q = Raises (PyBaseException cls msg) \<Longrightarrow>
   fst (explainer_process_query E q st) = Raises (PyBaseException cls msg)"
  by (simp add: explainer_process_query_def explainer_get_prompt_def io_defs)

lemma explainer_no_exception:
  "fst (explainer_process_query E q st) \<noteq> Raises (PyException cls msg)"
  by (auto simp: explainer_process_query_def explainer_get_prompt_def io_defs
      split: outcome.splits py_raise.splits)

lemma explainer_returns_cases:
  assumes "fst (explainer_process_query E q st) = Returns d"
  shows "(\<exists>cls out. model_ainvoke E EXPLAINER_AGENT_PROMPT q = Returns (VMsg cls out) \<and>
            d = success_result explainer_get_result_key out) \<or>
         (\<exists>msg. d = failure_result explainer_get_result_key msg)"
proof (cases "model_ainvoke E EXPLAINER_AGENT_PROMPT q")
  case (Returns response)
  with assms show ?thesis
    by (cases response)
      (auto simp: explainer_process_query_def explainer_get_prompt_def io_defs AttributeError_def)
next
  case (Raises e)
  with assms show ?thesis
    by (cases e) (auto simp: explainer_process_query_def explainer_get_prompt_def io_defs)
next
  case Diverges
  with assms show ?thesis
    by (simp add: explainer_process_query_def explainer_get_prompt_def io_defs)
qed

subsection \<open>The learner\<close>

lemma learner_trace:
  "snd (learner_process_query E q st) =
     AgentRun (learner_get_prompt E st) (get_learner_tools E) (learner_input q)
       # map ToolUse (run_tool_calls (learner_run E q st))"
  by (auto simp: learner_process_query_def io_defs split: outcome.splits py_raise.splits)

lemma learner_raises:
  "run_result (learner_run E q st) = Raises (PyException cls msg) \<Longrightarrow>
   fst (learner_process_query E q st) = Returns (failure_result learner_get_result_key msg)"
  by (simp add: learner_process_query_def io_defs)

lemma learner_propagates:
  "run_result (learner_run E q st) = Raises (PyBaseException cls msg) \<Longrightarrow>
   fst (learner_process_query E q st) = Raises (PyBaseException cls msg)"
  by (simp add: learner_process_query_def io_defs)

lemma learner_no_exception:
  "fst (learner_process_query E q st) \<noteq> Raises (PyException cls msg)"
  by (auto simp: learner_process_query_def io_defs split: outcome.splits py_raise.splits)

lemma learner_final_output_cases:
  "(\<exists>out. learner_final_output E r = Returns out) \<or>
   (\<exists>cls msg. learner_final_output E r = Raises (PyException cls msg))"
proof (cases "learner_final_output E r")
  case (Returns out)
  then show ?thesis by simp
next
  case (Raises e)
  then have "\<exists>cls msg. e = PyException cls msg"
    using dict_getitem_raises_Exception getitem_last_raises_Exception extract_raises_Exception
    by (auto simp: learner_final_output_def split: outcome.splits)
  with Raises show ?thesis by auto
next
  case Diverges
  then show ?thesis
    using dict_getitem_not_Diverges getitem_last_not_Diverges extract_not_Diverges
    by (auto simp: learner_final_output_def split: outcome.splits)
qed

lemma learner_returns:
  "run_result (learner_run E q st) = Returns r \<Longrightarrow>
   fst (learner_process_query E q st) =
     (case learner_final_output E r of
        Returns out \<Rightarrow> Returns (success_result learner_get_result_key out)
      | Raises (PyException cls msg) \<Rightarrow> Returns (failure_result learner_get_result_key msg)
      | Raises (PyBaseException cls msg) \<Rightarrow> Raises (PyBaseException cls msg)
      | Diverges \<Rightarrow> Diverges)"
  by (auto simp: learner_process_query_def learner_final_output_def io_defs
      split: outcome.splits py_raise.splits)

lemma learner_returns_dictionary:
  assumes "run_result (learner_run E q st) = Returns r"
  shows "\<exists>d. fst (learner_process_query E q st) = Returns d"
  using learner_final_output_cases [of E r] learner_returns [OF assms]
  by auto

lemma learner_diverges_iff:
  "fst (learner_process_query E q st) = Diverges \<longleftrightarrow> run_result (learner_run E q st) = Diverges"
proof (cases "run_result (learner_run E q st)")
  case (Returns r)
  then show ?thesis
    using learner_final_output_cases [of E r] by (auto simp: learner_returns)
next
  case (Raises e)
  then show ?thesis
    by (cases e) (simp_all add: learner_process_query_def io_defs)
next
  case Diverges
  then show ?thesis
    by (simp add: learner_process_query_def io_defs)
qed

lemma learner_returns_cases:
  assumes "fst (learner_process_query E q st) = Returns d"
  shows "(\<exists>out. d = success_result learner_get_result_key out) \<or>
         (\<exists>msg. d = failure_result learner_get_result_key msg)"
proof (cases "run_result (learner_run E q st)")
  case (Returns r)
  with assms show ?thesis
    by (auto simp: learner_returns split: outcome.splits py_raise.splits)
next
  case (Raises e)
  with assms show ?thesis
    by (cases e) (auto simp: learner_process_query_def io_defs)
next
  case Diverges
  with assms show ?thesis
    by (simp add: learner_process_query_def io_defs)
qed

subsection \<open>The orchestrator\<close>

lemma orchestrator_trace:
  "snd (orchestrator_process_query E q st) =
     AgentRun (orchestrator_get_prompt E st) (get_agent_tools E) (orchestrator_input st)
       # map ToolUse (run_tool_calls (orchestrator_run E st))"
  by (auto simp: orchestrator_process_query_def io_defs split: outcome.splits py_raise.splits)

lemma orchestrator_returns:
  "run_result (orchestrator_run E st) = Returns r \<Longrightarrow>
   fst (orchestrator_process_query E q st) = Returns (orchestrator_success r)"
  by (simp add: orchestrator_process_query_def orchestrator_success_def io_defs)

lemma orchestrator_raises:
  "run_result (orchestrator_run E st) = Raises (PyException cls msg) \<Longrightarrow>
   fst (orchestrator_process_query E q st) = Returns (failure_result ''orchestrator_result'' msg)"
  by (simp add: orchestrator_process_query_def io_defs)

lemma orchestrator_no_exception:
  "fst (orchestrator_process_query E q st) \<noteq> Raises (PyException cls msg)"
  by (auto simp: orchestrator_process_query_def io_defs split: outcome.splits py_raise.splits)

lemma orchestrator_returns_cases:
  assumes "fst (orchestrator_process_query E q st) = Returns d"
  shows "(\<exists>r. run_result (orchestrator_run E st) = Returns r \<and> d = orchestrator_success r) \<or>
         (\<exists>msg. d = failure_result ''orchestrator_result'' msg)"
proof (cases "run_result (orchestrator_run E st)")
  case (Returns r)
  with assms show ?thesis
    by (auto simp: orchestrator_returns)
next
  case (Raises e)
  with assms show ?thesis
    by (cases e) (auto simp: orchestrator_process_query_def io_defs)
next
  case Diverges
  with assms show ?thesis
    by (simp add: orchestrator_process_query_def io_defs)
qed

subsection \<open>Envelopes and selections\<close>

lemma selected_agents_map [simp]: "selected_agents (map ToolUse cs) = map tool_name cs"
  by (induction cs) simp_all

lemma selected_agents_replicate:
  "selected_agents (replicate n (ToolUse c)) = replicate n (tool_name c)"
  by (induction n) simp_all

lemma invariant_success_result:
  "k \<noteq> ''success'' \<Longrightarrow> k \<noteq> ''error'' \<Longrightarrow> envelope_invariant k (success_result k v)"
  by (auto simp: envelope_invariant_def success_result_def)

lemma invariant_failure_result:
  "k \<noteq> ''success'' \<Longrightarrow> k \<noteq> ''error'' \<Longrightarrow> envelope_invariant k (failure_result k msg)"
  by (auto simp: envelope_invariant_def failure_result_def)

lemma invariant_orchestrator_success:
  "envelope_invariant ''orchestrator_result'' (orchestrator_success r)"
  by (auto simp: envelope_invariant_def orchestrator_success_def)

subsection \<open>The example environments\<close>

lemma final_output_of_answer:
  "learner_final_output E [(''messages'', answer_messages ''Deadlock is a situation ...'')]
     = Returns (VStr ''Deadlock is a situation ...'')"
  by (simp add: learner_final_output_def dict_getitem_def extract_text_from_message_def
      dict_get_def py_strip_def isspace_def answer_messages_def)

lemma E_quota_explainer:
  "fst (explainer_process_query E_quota q st)
     = Returns [(''success'', VBool False), (''explainer_agent_result'', VNone),
                (''error'', VList [VStr ''429 quota exceeded''])]"
  by (simp add: explainer_raises [where cls = "''ResourceExhausted''"] E_quota_def E_ok_def
      quota_error_def failure_result_def explainer_get_result_key_def)

lemma E_ok_learner:
  "fst (learner_process_query E_ok q st)
     = Returns [(''success'', VBool True),
                (''learner_agent_result'', VStr ''Deadlock is a situation ...''),
                (''error'', VList [])]"
proof -
  have "run_result (learner_run E_ok q st)
      = Returns [(''messages'', answer_messages ''Deadlock is a situation ...'')]"
    by (simp add: E_ok_def answer_run_def)
  then show ?thesis
    by (simp add: learner_returns final_output_of_answer success_result_def
        learner_get_result_key_def)
qed

lemma E_ok_orchestrator:
  "fst (orchestrator_process_query E_ok q st)
     = Returns [(''success'', VBool True),
                (''orchestrator_result'', VDict [(''messages'', answer_messages clarifying_question)]),
                (''messages'', answer_messages clarifying_question),
                (''error'', VList [])]"
proof -
  have "run_result (orchestrator_run E_ok st)
      = Returns [(''messages'', answer_messages clarifying_question)]"
    by (simp add: E_ok_def answer_run_def)
  then show ?thesis
    by (simp add: orchestrator_returns orchestrator_success_def dict_get_def)
qed

lemma E_quota_orchestrator:
  "fst (orchestrator_process_query E_quota q st)
     = Returns [(''success'', VBool False), (''orchestrator_result'', VNone),
                (''error'', VList [VStr ''429 quota exceeded''])]"
  by (simp add: orchestrator_raises [where cls = "''ResourceExhausted''"] E_quota_def E_ok_def
      quota_error_def failed_run_def failure_result_def)

lemma E_recursion_limit_run:
  "learner_run E_recursion_limit q st
     = failed_run (PyException ''GraphRecursionError'' recursion_limit_text)
         (replicate 12 (ToolCall ''firecrawl_search'' False))"
  by (simp add: E_recursion_limit_def E_ok_def)

lemma E_cancelled_model:
  "model_ainvoke E_cancelled p q = Raises (PyBaseException ''CancelledError'' [])"
  by (simp add: E_cancelled_def E_ok_def cancelled_def)

lemma E_cancelled_run:
  "run_result (learner_run E_cancelled q st) = Raises (PyBaseException ''CancelledError'' [])"
  by (simp add: E_cancelled_def E_ok_def cancelled_def failed_run_def)

lemma E_ok_run:
  "run_result (learner_run E_ok q st)
     = Returns [(''messages'', answer_messages ''Deadlock is a situation ...'')]"
  by (simp add: E_ok_def answer_run_def)

lemma E_unknown_intent_run:
  "run_result (orchestrator_run E_unknown_intent st)
     = Raises (PyException ''UnknownIntentError'' ''no responder for intent unclear'')"
  by (simp add: E_unknown_intent_def E_ok_def failed_run_def)

lemma E_tool_failure_run:
  "learner_run E_tool_failure q st
     = failed_run (PyException ''ToolException'' ''firecrawl request failed'')
         [ToolCall ''firecrawl_search'' True]"
  by (simp add: E_tool_failure_def E_ok_def)

lemma E_tool_failure_absorbed_run:
  "learner_run E_tool_failure_absorbed q st
     = answer_run ''Deadlock is a situation ...'' [ToolCall ''firecrawl_search'' True]"
  by (simp add: E_tool_failure_absorbed_def E_ok_def)

section \<open>The claims\<close>

text \<open>
  C1. The claim: for the explainer and the learner, when the text-generation call
  raises any exception, \<open>process_query\<close> returns a dictionary with
  \<open>success = False\<close> and a non-empty error list, and the exception never leaves
  \<open>process_query\<close>. Both handlers are \<open>except Exception\<close>. What holds: when the
  explainer's \<open>model.ainvoke\<close> raises an instance of \<open>Exception\<close>, and when the
  learner's agent run (inside which the model is called) ends by raising one, the result
  is the failure dictionary with the one-element error list \<open>[str(e)]\<close>, and no
  instance of \<open>Exception\<close> ever leaves either \<open>process_query\<close>; a raise that is
  not an instance of \<open>Exception\<close> leaves \<open>process_query\<close> as it is.
\<close>

theorem process_query_reports_generation_failure:
  "(model_ainvoke E (explainer_get_prompt E state) query = Raises (PyException cls msg) \<longrightarrow>
      explainer_process_query E query state
        = (Returns [(''success'', VBool False), (''explainer_agent_result'', VNone),
                    (''error'', VList [VStr msg])],
           [ModelCall (explainer_get_prompt E state) query]))
   \<and> (run_result (learner_run E query state) = Raises (PyException cls msg) \<longrightarrow>
      fst (learner_process_query E query state)
        = Returns [(''success'', VBool False), (''learner_agent_result'', VNone),
                   (''error'', VList [VStr msg])])
   \<and> fst (explainer_process_query E query state) \<noteq> Raises (PyException cls' msg')
   \<and> fst (learner_process_query E query state) \<noteq> Raises (PyException cls' msg')
   \<and> (model_ainvoke E (explainer_get_prompt E state) query
        = Raises (PyBaseException cls msg) \<longrightarrow>
      fst (explainer_process_query E query state) = Raises (PyBaseException cls msg))
   \<and> (run_result (learner_run E query state) = Raises (PyBaseException cls msg) \<longrightarrow>
      fst (learner_process_query E query state) = Raises (PyBaseException cls msg))"
proof (intro conjI impI)
  assume "model_ainvoke E (explainer_get_prompt E state) query = Raises (PyException cls msg)"
  then have "fst (explainer_process_query E query state)
      = Returns (failure_result explainer_get_result_key msg)"
    by (simp add: explainer_raises explainer_get_prompt_def)
  then show "explainer_process_query E query state
        = (Returns [(''success'', VBool False), (''explainer_agent_result'', VNone),
                    (''error'', VList [VStr msg])],
           [ModelCall (explainer_get_prompt E state) query])"
    using explainer_trace [of E query state]
    by (simp add: prod_eq_iff explainer_get_prompt_def failure_result_def
        explainer_get_result_key_def)
next
  assume "run_result (learner_run E query state) = Raises (PyException cls msg)"
  then have "fst (learner_process_query E query state)
      = Returns (failure_result learner_get_result_key msg)"
    by (rule learner_raises)
  then show "fst (learner_process_query E query state)
        = Returns [(''success'', VBool False), (''learner_agent_result'', VNone),
                   (''error'', VList [VStr msg])]"
    by (simp add: failure_result_def learner_get_result_key_def)
next
  show "fst (explainer_process_query E query state) \<noteq> Raises (PyException cls' msg')"
    by (rule explainer_no_exception)
next
  show "fst (learner_process_query E query state) \<noteq> Raises (PyException cls' msg')"
    by (rule learner_no_exception)
next
  assume "model_ainvoke E (explainer_get_prompt E state) query
        = Raises (PyBaseException cls msg)"
  then show "fst (explainer_process_query E query state) = Raises (PyBaseException cls msg)"
    by (simp add: explainer_propagates explainer_get_prompt_def)
next
  assume "run_result (learner_run E query state) = Raises (PyBaseException cls msg)"
  then show "fst (learner_process_query E query state) = Raises (PyBaseException cls msg)"
    by (rule learner_propagates)
qed

text \<open>
  With a model and an agent run that fail on an exhausted quota, and with ones that are
  cancelled.
\<close>

theorem process_query_reports_generation_failure_witness:
  "model_ainvoke E_quota (explainer_get_prompt E_quota None) ''What is an API?''
     = Raises (PyException ''ResourceExhausted'' ''429 quota exceeded'')
   \<and> explainer_process_query E_quota ''What is an API?'' None
     = (Returns [(''success'', VBool False), (''explainer_agent_result'', VNone),
                 (''error'', VList [VStr ''429 quota exceeded''])],
        [ModelCall EXPLAINER_AGENT_PROMPT ''What is an API?''])
   \<and> run_result (learner_run E_quota ''What is an API?'' None)
     = Raises (PyException ''ResourceExhausted'' ''429 quota exceeded'')
   \<and> fst (learner_process_query E_quota ''What is an API?'' None)
     = Returns [(''success'', VBool False), (''learner_agent_result'', VNone),
                (''error'', VList [VStr ''429 quota exceeded''])]
   \<and> model_ainvoke E_cancelled (explainer_get_prompt E_cancelled None) ''What is an API?''
     = Raises (PyBaseException ''CancelledError'' [])
   \<and> fst (explainer_process_query E_cancelled ''What is an API?'' None)
     = Raises (PyBaseException ''CancelledError'' [])
   \<and> run_result (learner_run E_cancelled ''What is an API?'' None)
     = Raises (PyBaseException ''CancelledError'' [])
   \<and> fst (learner_process_query E_cancelled ''What is an API?'' None)
     = Raises (PyBaseException ''CancelledError'' [])"
proof -
  have m: "model_ainvoke E_quota (explainer_get_prompt E_quota None) ''What is an API?''
      = Raises (PyException ''ResourceExhausted'' ''429 quota exceeded'')"
    by (simp add: E_quota_def E_ok_def quota_error_def)
  have a: "run_result (learner_run E_quota ''What is an API?'' None)
      = Raises (PyException ''ResourceExhausted'' ''429 quota exceeded'')"
    by (simp add: E_quota_def E_ok_def quota_error_def failed_run_def)
  have p: "explainer_get_prompt E_quota None = EXPLAINER_AGENT_PROMPT"
    by (simp add: explainer_get_prompt_def)
  have c: "model_ainvoke E_cancelled (explainer_get_prompt E_cancelled None) ''What is an API?''
      = Raises (PyBaseException ''CancelledError'' [])"
    by (rule E_cancelled_model)
  have r: "run_result (learner_run E_cancelled ''What is an API?'' None)
      = Raises (PyBaseException ''CancelledError'' [])"
    by (rule E_cancelled_run)
  show ?thesis
    using m a p c r
      process_query_reports_generation_failure
        [where E = E_quota and state = None and query = "''What is an API?''"
          and cls = "''ResourceExhausted''" and msg = "''429 quota exceeded''"]
      process_query_reports_generation_failure
        [where E = E_cancelled and state = None and query = "''What is an API?''"
          and cls = "''CancelledError''" and msg = "[]"]
    by simp
qed

text \<open>
  Against the claim as stated: a generation call, and an agent run, that end with
  \<open>asyncio.CancelledError\<close>, which is no instance of \<open>Exception\<close>; it leaves
  \<open>process_query\<close> and no dictionary is returned.
\<close>

theorem cancelled_generation_counterexample:
  "model_ainvoke E_cancelled (explainer_get_prompt E_cancelled None) ''Explain recursion''
     = Raises (PyBaseException ''CancelledError'' [])
   \<and> fst (explainer_process_query E_cancelled ''Explain recursion'' None)
     = Raises (PyBaseException ''CancelledError'' [])
   \<and> run_result (learner_run E_cancelled ''Explain recursion'' None)
     = Raises (PyBaseException ''CancelledError'' [])
   \<and> fst (learner_process_query E_cancelled ''Explain recursion'' None)
     = Raises (PyBaseException ''CancelledError'' [])"
  using E_cancelled_model [of "explainer_get_prompt E_cancelled None" "''Explain recursion''"]
    E_cancelled_run [where q = "''Explain recursion''" and st = None]
  by (simp add: explainer_propagates learner_propagates explainer_get_prompt_def)

text \<open>
  C2. Every dictionary returned by the \<open>process_query\<close> of the explainer, the learner
  or the orchestrator satisfies the envelope invariant: \<open>success\<close> is a boolean; when
  it is \<open>False\<close> the entry under the agent's result key is \<open>None\<close> and the error list
  is not empty; when it is \<open>True\<close> the error list is empty.
\<close>

theorem process_query_envelope_invariant:
  "(fst (explainer_process_query E query state) = Returns d \<longrightarrow>
      envelope_invariant explainer_get_result_key d)
   \<and> (fst (learner_process_query E query state) = Returns d \<longrightarrow>
      envelope_invariant learner_get_result_key d)
   \<and> (fst (orchestrator_process_query E query state) = Returns d \<longrightarrow>
      envelope_invariant ''orchestrator_result'' d)"
proof (intro conjI impI)
  assume "fst (explainer_process_query E query state) = Returns d"
  from explainer_returns_cases [OF this]
  show "envelope_invariant explainer_get_result_key d"
    by (auto simp: explainer_get_result_key_def
        intro!: invariant_success_result invariant_failure_result)
next
  assume "fst (learner_process_query E query state) = Returns d"
  from learner_returns_cases [OF this]
  show "envelope_invariant learner_get_result_key d"
    by (auto simp: learner_get_result_key_def
        intro!: invariant_success_result invariant_failure_result)
next
  assume "fst (orchestrator_process_query E query state) = Returns d"
  from orchestrator_returns_cases [OF this]
  show "envelope_invariant ''orchestrator_result'' d"
    by (auto intro!: invariant_orchestrator_success invariant_failure_result)
qed

text \<open>A failed explainer turn, a successful learner turn and a failed orchestrator turn.\<close>

theorem process_query_envelope_invariant_witness:
  "fst (explainer_process_query E_quota ''What is an API?'' None)
     = Returns [(''success'', VBool False), (''explainer_agent_result'', VNone),
                (''error'', VList [VStr ''429 quota exceeded''])]
   \<and> envelope_invariant explainer_get_result_key
     [(''success'', VBool False), (''explainer_agent_result'', VNone),
      (''error'', VList [VStr ''429 quota exceeded''])]
   \<and> fst (learner_process_query E_ok ''Explain deadlock'' None)
     = Returns [(''success'', VBool True),
                (''learner_agent_result'', VStr ''Deadlock is a situation ...''),
                (''error'', VList [])]
   \<and> envelope_invariant learner_get_result_key
     [(''success'', VBool True), (''learner_agent_result'', VStr ''Deadlock is a situation ...''),
      (''error'', VList [])]
   \<and> fst (orchestrator_process_query E_quota ''What is an API?'' None)
     = Returns [(''success'', VBool False), (''orchestrator_result'', VNone),
                (''error'', VList [VStr ''429 quota exceeded''])]
   \<and> envelope_invariant ''orchestrator_result''
     [(''success'', VBool False), (''orchestrator_result'', VNone),
      (''error'', VList [VStr ''429 quota exceeded''])]"
  using process_query_envelope_invariant
      [where E = E_quota and query = "''What is an API?''" and state = None
        and d = "[(''success'', VBool False), (''explainer_agent_result'', VNone),
                  (''error'', VList [VStr ''429 quota exceeded''])]"]
    process_query_envelope_invariant
      [where E = E_ok and query = "''Explain deadlock''" and state = None
        and d = "[(''success'', VBool True),
                  (''learner_agent_result'', VStr ''Deadlock is a situation ...''),
                  (''error'', VList [])]"]
    process_query_envelope_invariant
      [where E = E_quota and query = "''What is an API?''" and state = None
        and d = "[(''success'', VBool False), (''orchestrator_result'', VNone),
                  (''error'', VList [VStr ''429 quota exceeded''])]"]
    E_quota_explainer [of "''What is an API?''" None]
    E_ok_learner [of "''Explain deadlock''" None]
    E_quota_orchestrator [of "''What is an API?''" None]
  by simp

text \<open>
  C3. One invocation of the explainer's \<open>process_query\<close> makes exactly one external
  call, the single \<open>model.ainvoke\<close> with the system prompt and the query: no agent
  run and no tool call. When that call returns a message, the result is the dictionary
  with \<open>success = True\<close>, an empty error list and, under
  \<open>explainer_agent_result\<close>, the message's content, whatever value it is, unchanged;
  and every dictionary with \<open>success = True\<close> it returns carries under that key the
  content of the message the model returned.
\<close>

theorem explainer_single_generation_call:
  "snd (explainer_process_query E query state)
     = [ModelCall (explainer_get_prompt E state) query]
   \<and> (model_ainvoke E (explainer_get_prompt E state) query = Returns (VMsg cls reply) \<longrightarrow>
        explainer_process_query E query state
          = (Returns [(''success'', VBool True), (''explainer_agent_result'', reply),
                      (''error'', VList [])],
             [ModelCall (explainer_get_prompt E state) query]))
   \<and> (fst (explainer_process_query E query state) = Returns d \<and>
      map_of d ''success'' = Some (VBool True) \<longrightarrow>
        (\<exists>cls' reply'.
           model_ainvoke E (explainer_get_prompt E state) query = Returns (VMsg cls' reply') \<and>
           map_of d ''explainer_agent_result'' = Some reply' \<and>
           d = [(''success'', VBool True), (''explainer_agent_result'', reply'),
                (''error'', VList [])]))"
proof (intro conjI impI)
  show t: "snd (explainer_process_query E query state)
     = [ModelCall (explainer_get_prompt E state) query]"
    by (simp add: explainer_trace explainer_get_prompt_def)
  assume "model_ainvoke E (explainer_get_prompt E state) query = Returns (VMsg cls reply)"
  then have "fst (explainer_process_query E query state)
          = Returns (success_result explainer_get_result_key reply)"
    by (simp add: explainer_returns explainer_get_prompt_def)
  with t show "explainer_process_query E query state
          = (Returns [(''success'', VBool True), (''explainer_agent_result'', reply),
                      (''error'', VList [])],
             [ModelCall (explainer_get_prompt E state) query])"
    by (simp add: prod_eq_iff success_result_def explainer_get_result_key_def)
next
  assume a: "fst (explainer_process_query E query state) = Returns d \<and>
      map_of d ''success'' = Some (VBool True)"
  then have "(\<exists>cls out. model_ainvoke E EXPLAINER_AGENT_PROMPT query = Returns (VMsg cls out) \<and>
      d = success_result explainer_get_result_key out) \<or>
   (\<exists>msg. d = failure_result explainer_get_result_key msg)"
    using explainer_returns_cases by blast
  with a show "\<exists>cls' reply'.
           model_ainvoke E (explainer_get_prompt E state) query = Returns (VMsg cls' reply') \<and>
           map_of d ''explainer_agent_result'' = Some reply' \<and>
           d = [(''success'', VBool True), (''explainer_agent_result'', reply'),
                (''error'', VList [])]"
    by (auto simp: explainer_get_prompt_def success_result_def failure_result_def
        explainer_get_result_key_def)
qed

text \<open>
  With a model that answers in one string, and with one whose reply is a list of content
  blocks: the list is the payload as it came.
\<close>

theorem explainer_single_generation_call_witness:
  "model_ainvoke E_ok (explainer_get_prompt E_ok None) ''What is an API?''
     = Returns (VMsg ''AIMessage'' (VStr ''An API is like a waiter.''))
   \<and> explainer_process_query E_ok ''What is an API?'' None
     = (Returns [(''success'', VBool True),
                 (''explainer_agent_result'', VStr ''An API is like a waiter.''),
                 (''error'', VList [])],
        [ModelCall EXPLAINER_AGENT_PROMPT ''What is an API?''])
   \<and> model_ainvoke E_blocks (explainer_get_prompt E_blocks None) ''What is an API?''
     = Returns (VMsg ''AIMessage''
         (VList [VDict [(''type'', VStr ''text''), (''text'', VStr ''An API is like a waiter.'')]]))
   \<and> explainer_process_query E_blocks ''What is an API?'' None
     = (Returns [(''success'', VBool True),
                 (''explainer_agent_result'',
                  VList [VDict [(''type'', VStr ''text''),
                                (''text'', VStr ''An API is like a waiter.'')]]),
                 (''error'', VList [])],
        [ModelCall EXPLAINER_AGENT_PROMPT ''What is an API?''])"
proof -
  have m: "model_ainvoke E_ok (explainer_get_prompt E_ok None) ''What is an API?''
      = Returns (VMsg ''AIMessage'' (VStr ''An API is like a waiter.''))"
    by (simp add: E_ok_def)
  have b: "model_ainvoke E_blocks (explainer_get_prompt E_blocks None) ''What is an API?''
     = Returns (VMsg ''AIMessage''
         (VList [VDict [(''type'', VStr ''text''), (''text'', VStr ''An API is like a waiter.'')]]))"
    by (simp add: E_blocks_def E_ok_def)
  have p: "explainer_get_prompt E_ok None = EXPLAINER_AGENT_PROMPT"
    "explainer_get_prompt E_blocks None = EXPLAINER_AGENT_PROMPT"
    by (simp_all add: explainer_get_prompt_def)
  from m b p show ?thesis
    using explainer_single_generation_call
        [where E = E_ok and query = "''What is an API?''" and state = None
          and cls = "''AIMessage''" and reply = "VStr ''An API is like a waiter.''"]
      explainer_single_generation_call
        [where E = E_blocks and query = "''What is an API?''" and state = None
          and cls = "''AIMessage''"
          and reply = "VList [VDict [(''type'', VStr ''text''),
                                     (''text'', VStr ''An API is like a waiter.'')]]"]
    by simp
qed

text \<open>
  C4. The claim: the learner's tool-calling loop stops after a bounded number of tool
  calls, and when planning does not converge within the bound the responder fails with
  \<open>ResponderTimeoutError\<close>. The source has no loop, no bound and no such error of its
  own: it starts one agent run of the framework and waits for it, so any bound is the
  framework's. What holds: the external calls of a turn are that one run, started
  with the prompt, the tools and the query only, and the tool calls the run itself makes.
  When the run ends by raising an instance of \<open>Exception\<close> (the framework's own error
  for a loop it stopped included), the result is the failure dictionary with that
  exception's text as its only error. When the run returns, \<open>process_query\<close> returns
  a dictionary; a raise that is no instance of \<open>Exception\<close> leaves
  \<open>process_query\<close>; and \<open>process_query\<close> fails to come back only when the run
  does.
\<close>

theorem learner_loop_is_delegated:
  "snd (learner_process_query E query state)
     = AgentRun (learner_get_prompt E state) (get_learner_tools E) (learner_input query)
         # map ToolUse (run_tool_calls (learner_run E query state))
   \<and> (run_result (learner_run E query state) = Raises (PyException cls msg) \<longrightarrow>
        fst (learner_process_query E query state)
          = Returns [(''success'', VBool False), (''learner_agent_result'', VNone),
                     (''error'', VList [VStr msg])])
   \<and> (run_result (learner_run E query state) = Returns result \<longrightarrow>
        (\<exists>d. fst (learner_process_query E query state) = Returns d))
   \<and> (run_result (learner_run E query state) = Raises (PyBaseException cls msg) \<longrightarrow>
        fst (learner_process_query E query state) = Raises (PyBaseException cls msg))
   \<and> ((fst (learner_process_query E query state) = Diverges)
        = (run_result (learner_run E query state) = Diverges))"
proof (intro conjI impI)
  show "snd (learner_process_query E query state)
     = AgentRun (learner_get_prompt E state) (get_learner_tools E) (learner_input query)
         # map ToolUse (run_tool_calls (learner_run E query state))"
    by (rule learner_trace)
next
  assume "run_result (learner_run E query state) = Raises (PyException cls msg)"
  then have "fst (learner_process_query E query state)
      = Returns (failure_result learner_get_result_key msg)"
    by (rule learner_raises)
  then show "fst (learner_process_query E query state)
          = Returns [(''success'', VBool False), (''learner_agent_result'', VNone),
                     (''error'', VList [VStr msg])]"
    by (simp add: failure_result_def learner_get_result_key_def)
next
  assume "run_result (learner_run E query state) = Returns result"
  then show "\<exists>d. fst (learner_process_query E query state) = Returns d"
    by (rule learner_returns_dictionary)
next
  assume "run_result (learner_run E query state) = Raises (PyBaseException cls msg)"
  then show "fst (learner_process_query E query state) = Raises (PyBaseException cls msg)"
    by (rule learner_propagates)
next
  show "(fst (learner_process_query E query state) = Diverges)
        = (run_result (learner_run E query state) = Diverges)"
    by (rule learner_diverges_iff)
qed

text \<open>
  A run that the framework stops at its recursion limit, after twelve tool calls; a run
  that answers; and a run that is cancelled.
\<close>

theorem learner_loop_is_delegated_witness:
  "run_result (learner_run E_recursion_limit ''Explain deadlock'' None)
     = Raises (PyException ''GraphRecursionError'' recursion_limit_text)
   \<and> fst (learner_process_query E_recursion_limit ''Explain deadlock'' None)
     = Returns [(''success'', VBool False), (''learner_agent_result'', VNone),
                (''error'', VList [VStr recursion_limit_text])]
   \<and> selected_agents (snd (learner_process_query E_recursion_limit ''Explain deadlock'' None))
     = replicate 12 ''firecrawl_search''
   \<and> run_result (learner_run E_ok ''Explain deadlock'' None)
     = Returns [(''messages'', answer_messages ''Deadlock is a situation ...'')]
   \<and> (\<exists>d. fst (learner_process_query E_ok ''Explain deadlock'' None) = Returns d)
   \<and> run_result (learner_run E_cancelled ''Explain deadlock'' None)
     = Raises (PyBaseException ''CancelledError'' [])
   \<and> fst (learner_process_query E_cancelled ''Explain deadlock'' None)
     = Raises (PyBaseException ''CancelledError'' [])"
proof -
  have r: "run_result (learner_run E_recursion_limit ''Explain deadlock'' None)
     = Raises (PyException ''GraphRecursionError'' recursion_limit_text)"
    by (simp add: E_recursion_limit_run failed_run_def)
  have c: "run_tool_calls (learner_run E_recursion_limit ''Explain deadlock'' None)
     = replicate 12 (ToolCall ''firecrawl_search'' False)"
    by (simp add: E_recursion_limit_run failed_run_def)
  have k: "run_result (learner_run E_ok ''Explain deadlock'' None)
     = Returns [(''messages'', answer_messages ''Deadlock is a situation ...'')]"
    by (rule E_ok_run)
  have x: "run_result (learner_run E_cancelled ''Explain deadlock'' None)
     = Raises (PyBaseException ''CancelledError'' [])"
    by (rule E_cancelled_run)
  from r c k x show ?thesis
    using learner_loop_is_delegated [where E = E_recursion_limit
          and query = "''Explain deadlock''" and state = None and cls = "''GraphRecursionError''"
          and msg = recursion_limit_text]
      learner_loop_is_delegated [where E = E_ok
          and query = "''Explain deadlock''" and state = None
          and result = "[(''messages'', answer_messages ''Deadlock is a situation ...'')]"]
      learner_loop_is_delegated [where E = E_cancelled
          and query = "''Explain deadlock''" and state = None and cls = "''CancelledError''"
          and msg = "[]"]
    by (simp add: selected_agents_replicate)
qed

text \<open>
  Against the claim as stated: a run whose loop did not converge and was stopped by the
  framework. The responder does not fail with \<open>ResponderTimeoutError\<close>: it returns an
  ordinary failure dictionary whose only error is the framework's text, which does not
  name that error.
\<close>

theorem learner_loop_counterexample:
  "run_result (learner_run E_recursion_limit ''Explain deadlock'' None)
     = Raises (PyException ''GraphRecursionError''
         ''Recursion limit reached without hitting a stop condition.'')
   \<and> fst (learner_process_query E_recursion_limit ''Explain deadlock'' None)
     = Returns [(''success'', VBool False), (''learner_agent_result'', VNone),
         (''error'', VList [VStr ''Recursion limit reached without hitting a stop condition.''])]
   \<and> \<not> contains ''Recursion limit reached without hitting a stop condition.''
         ''ResponderTimeoutError''"
proof -
  have r: "run_result (learner_run E_recursion_limit ''Explain deadlock'' None)
     = Raises (PyException ''GraphRecursionError''
         ''Recursion limit reached without hitting a stop condition.'')"
    by (simp add: E_recursion_limit_run failed_run_def recursion_limit_text_def)
  then have "fst (learner_process_query E_recursion_limit ''Explain deadlock'' None)
     = Returns [(''success'', VBool False), (''learner_agent_result'', VNone),
         (''error'', VList [VStr ''Recursion limit reached without hitting a stop condition.''])]"
    by (simp add: learner_raises failure_result_def learner_get_result_key_def)
  moreover have "\<not> contains ''Recursion limit reached without hitting a stop condition.''
         ''ResponderTimeoutError''"
    by simp
  ultimately show ?thesis using r by simp
qed

text \<open>
  C5. The claim: an \<open>UnknownIntentError\<close> raised during a turn reaches the caller as
  a fatal \<open>OrchestratorError\<close> and is never turned into a failed envelope. The
  orchestrator's handler catches every \<open>Exception\<close>. What holds: whenever the run
  raises an \<open>Exception\<close>, of whatever class, \<open>process_query\<close> returns the failure
  dictionary with the exception's text, and no \<open>Exception\<close> leaves \<open>process_query\<close>.
\<close>

theorem orchestrator_recovers_every_exception:
  "(run_result (orchestrator_run E state) = Raises (PyException cls msg) \<longrightarrow>
      fst (orchestrator_process_query E query state)
        = Returns [(''success'', VBool False), (''orchestrator_result'', VNone),
                   (''error'', VList [VStr msg])])
   \<and> fst (orchestrator_process_query E query state) \<noteq> Raises (PyException cls' msg')"
  using orchestrator_raises [where E = E and st = state and cls = cls and msg = msg and q = query]
    orchestrator_no_exception [where E = E and q = query and st = state and cls = cls'
      and msg = msg']
  by (simp add: failure_result_def)

theorem orchestrator_recovers_every_exception_witness:
  "run_result (orchestrator_run E_unknown_intent (Some (state_with_utterance ''hello'')))
     = Raises (PyException ''UnknownIntentError'' ''no responder for intent unclear'')
   \<and> fst (orchestrator_process_query E_unknown_intent ''hello''
        (Some (state_with_utterance ''hello'')))
     = Returns [(''success'', VBool False), (''orchestrator_result'', VNone),
                (''error'', VList [VStr ''no responder for intent unclear''])]"
  using orchestrator_recovers_every_exception
    [where E = E_unknown_intent and state = "Some (state_with_utterance ''hello'')"
      and cls = "''UnknownIntentError''" and msg = "''no responder for intent unclear''"
      and query = "''hello''"]
    E_unknown_intent_run [of "Some (state_with_utterance ''hello'')"]
  by simp

text \<open>
  Against the claim as stated: a turn in which \<open>UnknownIntentError\<close> is raised ends
  with a returned failure dictionary, not with an error raised to the caller.
\<close>

theorem unknown_intent_counterexample:
  "run_result (orchestrator_run E_unknown_intent (Some (state_with_utterance ''what about loops?'')))
     = Raises (PyException ''UnknownIntentError'' ''no responder for intent unclear'')
   \<and> fst (orchestrator_process_query E_unknown_intent ''what about loops?''
        (Some (state_with_utterance ''what about loops?'')))
     = Returns [(''success'', VBool False), (''orchestrator_result'', VNone),
                (''error'', VList [VStr ''no responder for intent unclear''])]"
  using E_unknown_intent_run [of "Some (state_with_utterance ''what about loops?'')"]
  by (simp add: orchestrator_raises failure_result_def)

text \<open>
  C6. The claim: a failure of the retrieval tool never makes the learner's turn fail.
  The source has no handling of its own for the tool: the tool is called inside the agent
  run. What holds: when the run returns and the text of its last message can be
  extracted, the turn succeeds with that text, whatever happened to the tool calls of
  the run; when the run ends by raising an \<open>Exception\<close>, a tool's failure that it
  passed on included, the turn is the failure dictionary with the exception's text.
\<close>

theorem learner_retrieval_failure:
  "(run_result (learner_run E query state) = Returns result \<and>
    learner_final_output E result = Returns out \<longrightarrow>
      fst (learner_process_query E query state)
        = Returns (success_result learner_get_result_key out))
   \<and> (run_result (learner_run E query state) = Raises (PyException cls msg) \<longrightarrow>
      fst (learner_process_query E query state)
        = Returns (failure_result learner_get_result_key msg))"
  using learner_returns [where E = E and q = query and st = state and r = result]
    learner_raises [where E = E and q = query and st = state and cls = cls and msg = msg]
  by simp

text \<open>A run that absorbs the failed tool call and answers, and a run that passes it on.\<close>

theorem learner_retrieval_failure_witness:
  "run_tool_calls (learner_run E_tool_failure_absorbed ''Explain deadlock'' None)
     = [ToolCall ''firecrawl_search'' True]
   \<and> fst (learner_process_query E_tool_failure_absorbed ''Explain deadlock'' None)
     = Returns [(''success'', VBool True),
                (''learner_agent_result'', VStr ''Deadlock is a situation ...''),
                (''error'', VList [])]
   \<and> run_tool_calls (learner_run E_tool_failure ''Explain deadlock'' None)
     = [ToolCall ''firecrawl_search'' True]
   \<and> fst (learner_process_query E_tool_failure ''Explain deadlock'' None)
     = Returns [(''success'', VBool False), (''learner_agent_result'', VNone),
                (''error'', VList [VStr ''firecrawl request failed''])]"
proof -
  have o: "learner_final_output E_tool_failure_absorbed
      [(''messages'', answer_messages ''Deadlock is a situation ...'')]
     = Returns (VStr ''Deadlock is a situation ...'')"
    by (rule final_output_of_answer)
  show ?thesis
    using o learner_retrieval_failure
      [where E = E_tool_failure_absorbed and query = "''Explain deadlock''" and state = None
        and result = "[(''messages'', answer_messages ''Deadlock is a situation ...'')]"
        and out = "VStr ''Deadlock is a situation ...''"]
      learner_retrieval_failure
      [where E = E_tool_failure and query = "''Explain deadlock''" and state = None
        and cls = "''ToolException''" and msg = "''firecrawl request failed''"]
    by (simp add: E_tool_failure_run E_tool_failure_absorbed_run failed_run_def answer_run_def
        success_result_def failure_result_def learner_get_result_key_def)
qed

text \<open>
  Against the claim as stated: a turn whose run made a failing tool call and passed the
  failure on ends with \<open>success = False\<close>.
\<close>

theorem retrieval_failure_counterexample:
  "ToolUse (ToolCall ''firecrawl_search'' True)
     \<in> set (snd (learner_process_query E_tool_failure ''Explain virtual memory'' None))
   \<and> fst (learner_process_query E_tool_failure ''Explain virtual memory'' None)
     = Returns [(''success'', VBool False), (''learner_agent_result'', VNone),
                (''error'', VList [VStr ''firecrawl request failed''])]"
  by (simp add: learner_trace learner_raises [where cls = "''ToolException''"]
      E_tool_failure_run failed_run_def failure_result_def learner_get_result_key_def)

text \<open>
  C7. The claim: for every utterance with a signal of both kinds, the intent resolves to
  exam and the learner is selected. The source has no classifier and no tie-break: the
  DECISION RULES are text of the prompt, and the choice is made inside the agent run.
  What holds: the responders selected in a turn are exactly the tools the run calls, and
  the result of \<open>process_query\<close> does not depend on its \<open>query\<close> argument at all.
\<close>

theorem orchestrator_selection_is_delegated:
  "selected_agents (snd (orchestrator_process_query E query state))
     = map tool_name (run_tool_calls (orchestrator_run E state))
   \<and> orchestrator_process_query E query state = orchestrator_process_query E query' state"
proof
  show "selected_agents (snd (orchestrator_process_query E query state))
     = map tool_name (run_tool_calls (orchestrator_run E state))"
    by (simp add: orchestrator_trace)
next
  show "orchestrator_process_query E query state = orchestrator_process_query E query' state"
    by (simp add: orchestrator_process_query_def)
qed

text \<open>With a run that calls the learner for an utterance with both signals.\<close>

theorem orchestrator_selection_is_delegated_witness:
  "selected_agents (snd (orchestrator_process_query E_picks_learner both_signals
       (Some (state_with_utterance both_signals))))
     = [''learner_agent'']
   \<and> orchestrator_process_query E_picks_learner both_signals
        (Some (state_with_utterance both_signals))
     = orchestrator_process_query E_picks_learner ''hello''
        (Some (state_with_utterance both_signals))"
  using orchestrator_selection_is_delegated
    [where E = E_picks_learner and query = both_signals and query' = "''hello''"
      and state = "Some (state_with_utterance both_signals)"]
  by (simp add: orchestrator_trace E_picks_learner_def E_ok_def answer_run_def)

text \<open>
  Against the claim as stated: an utterance with both signals, and a run that calls the
  explainer for it; nothing in the source turns that choice into the learner.
\<close>

theorem tie_break_counterexample:
  "mentions explainer_signals ''explain simply, I have exams next week''
   \<and> mentions learner_signals ''explain simply, I have exams next week''
   \<and> selected_agents (snd (orchestrator_process_query E_picks_explainer
       ''explain simply, I have exams next week''
       (Some (state_with_utterance ''explain simply, I have exams next week''))))
     = [''explainer_agent'']"
  by (simp add: mentions_def explainer_signals_def learner_signals_def orchestrator_trace
      E_picks_explainer_def E_ok_def answer_run_def)

text \<open>
  C8. The claim: on a turn with unclear intent and no prior intent the result is a
  success envelope whose payload is a clarifying question and whose selected responder is
  none. The source has no such branch: the question is a line of the prompt. What holds:
  a state without \<open>user_intent\<close> puts the intent \<open>unknown\<close> into the prompt; when
  the run returns, the result is the success dictionary with the run's whole result as
  payload and its message list under \<open>messages\<close>; the responders selected are the
  tools the run called; and no returned dictionary has a \<open>selected_responder\<close> entry.
\<close>

theorem orchestrator_unclear_turn:
  "(run_result (orchestrator_run E state) = Returns r \<longrightarrow>
      fst (orchestrator_process_query E query state)
        = Returns [(''success'', VBool True),
                   (''orchestrator_result'', VDict r),
                   (''messages'', dict_get r ''messages'' (VList [])),
                   (''error'', VList [])])
   \<and> (fst (orchestrator_process_query E query state) = Returns d \<longrightarrow>
        map_of d ''selected_responder'' = None)
   \<and> selected_agents (snd (orchestrator_process_query E query state))
        = map tool_name (run_tool_calls (orchestrator_run E state))
   \<and> (state = Some s \<and> map_of s ''user_intent'' = None \<longrightarrow>
        orchestrator_get_prompt E state = ORCHESTRATOR_PROMPT ''unknown'')"
proof (intro conjI impI)
  assume "run_result (orchestrator_run E state) = Returns r"
  then show "fst (orchestrator_process_query E query state)
        = Returns [(''success'', VBool True),
                   (''orchestrator_result'', VDict r),
                   (''messages'', dict_get r ''messages'' (VList [])),
                   (''error'', VList [])]"
    by (simp add: orchestrator_returns orchestrator_success_def)
next
  assume "fst (orchestrator_process_query E query state) = Returns d"
  from orchestrator_returns_cases [OF this]
  show "map_of d ''selected_responder'' = None"
    by (auto simp: orchestrator_success_def failure_result_def)
next
  show "selected_agents (snd (orchestrator_process_query E query state))
        = map tool_name (run_tool_calls (orchestrator_run E state))"
    by (simp add: orchestrator_trace)
next
  assume "state = Some s \<and> map_of s ''user_intent'' = None"
  then show "orchestrator_get_prompt E state = ORCHESTRATOR_PROMPT ''unknown''"
    by (simp add: orchestrator_get_prompt_def dict_get_def py_str_def)
qed

text \<open>With a run that answers a first ``hello'' with the question of the prompt.\<close>

theorem orchestrator_unclear_turn_witness:
  "map_of (state_with_utterance ''hello'') ''user_intent'' = None
   \<and> run_result (orchestrator_run E_ok (Some (state_with_utterance ''hello'')))
     = Returns [(''messages'', answer_messages clarifying_question)]
   \<and> orchestrator_process_query E_ok ''hello'' (Some (state_with_utterance ''hello''))
     = (Returns [(''success'', VBool True),
                (''orchestrator_result'', VDict [(''messages'', answer_messages clarifying_question)]),
                (''messages'', answer_messages clarifying_question),
                (''error'', VList [])],
        [AgentRun (ORCHESTRATOR_PROMPT ''unknown'') [''explainer_agent'', ''learner_agent'']
           (state_with_utterance ''hello'')])"
proof -
  have r: "run_result (orchestrator_run E_ok (Some (state_with_utterance ''hello'')))
     = Returns [(''messages'', answer_messages clarifying_question)]"
    by (simp add: E_ok_def answer_run_def)
  have u: "map_of (state_with_utterance ''hello'') ''user_intent'' = None"
    by (simp add: state_with_utterance_def)
  have t: "snd (orchestrator_process_query E_ok ''hello'' (Some (state_with_utterance ''hello'')))
     = [AgentRun (orchestrator_get_prompt E_ok (Some (state_with_utterance ''hello'')))
          [''explainer_agent'', ''learner_agent''] (state_with_utterance ''hello'')]"
    by (simp add: orchestrator_trace E_ok_def answer_run_def orchestrator_input_def
        state_with_utterance_def dict_get_def)
  from r u t show ?thesis
    using orchestrator_unclear_turn
      [where E = E_ok and state = "Some (state_with_utterance ''hello'')"
        and r = "[(''messages'', answer_messages clarifying_question)]" and query = "''hello''"
        and s = "state_with_utterance ''hello''"]
    by (simp add: prod_eq_iff dict_get_def)
qed

text \<open>
  Against the claim as stated: a first ``hello'', with no signal of either kind and no
  stored intent, and a run that calls the explainer for it instead of asking.
\<close>

theorem unclear_turn_counterexample:
  "\<not> mentions explainer_signals ''hello''
   \<and> \<not> mentions learner_signals ''hello''
   \<and> map_of (state_with_utterance ''hello'') ''user_intent'' = None
   \<and> selected_agents (snd (orchestrator_process_query E_picks_explainer ''hello''
        (Some (state_with_utterance ''hello''))))
     = [''explainer_agent'']"
  by (simp add: mentions_def explainer_signals_def learner_signals_def orchestrator_trace
      E_picks_explainer_def E_ok_def answer_run_def state_with_utterance_def)

text \<open>
  C9. The claim: for every message the function is total, joining the kept parts of a
  list content and returning any other content unchanged. The code does not reach the
  join for a dict block whose \<open>text\<close> entry is not a string: the part is that entry,
  and \<open>p.strip()\<close> raises \<open>AttributeError\<close>. Evaluated here on the content
  \<open>[{"type": "text", "text": None}]\<close>.
\<close>

theorem extract_text_raises_on_non_string_text:
  "extract_text_from_message str_of
     (VMsg ''AIMessage'' (VList [VDict [(''type'', VStr ''text''), (''text'', VNone)]]))
   = Raises (PyException ''AttributeError''
       (quoted ''NoneType'' @ '' object has no attribute '' @ quoted ''strip''))"
  by (simp add: extract_text_from_message_def dict_get_def AttributeError_def)

text \<open>
  C10. Every dictionary the orchestrator's \<open>process_query\<close> returns has one of two
  shapes: with \<open>success = True\<close> its keys are \<open>success\<close>, \<open>orchestrator_result\<close>,
  \<open>messages\<close>, \<open>error\<close>, and \<open>messages\<close> holds the message list of the run's
  result; with \<open>success = False\<close> its keys are \<open>success\<close>, \<open>orchestrator_result\<close>,
  \<open>error\<close>, and there is no \<open>messages\<close> key.
\<close>

theorem orchestrator_result_shape:
  "fst (orchestrator_process_query E query state) = Returns d \<longrightarrow>
     (map_of d ''success'' = Some (VBool True) \<and>
      map fst d = [''success'', ''orchestrator_result'', ''messages'', ''error''] \<and>
      (\<exists>r. run_result (orchestrator_run E state) = Returns r \<and>
           map_of d ''messages'' = Some (dict_get r ''messages'' (VList []))))
     \<or>
     (map_of d ''success'' = Some (VBool False) \<and>
      map fst d = [''success'', ''orchestrator_result'', ''error''] \<and>
      map_of d ''messages'' = None)"
proof
  assume "fst (orchestrator_process_query E query state) = Returns d"
  from orchestrator_returns_cases [OF this]
  show "(map_of d ''success'' = Some (VBool True) \<and>
      map fst d = [''success'', ''orchestrator_result'', ''messages'', ''error''] \<and>
      (\<exists>r. run_result (orchestrator_run E state) = Returns r \<and>
           map_of d ''messages'' = Some (dict_get r ''messages'' (VList []))))
     \<or>
     (map_of d ''success'' = Some (VBool False) \<and>
      map fst d = [''success'', ''orchestrator_result'', ''error''] \<and>
      map_of d ''messages'' = None)"
    by (auto simp: orchestrator_success_def failure_result_def)
qed

text \<open>A successful and a failed orchestrator turn.\<close>

theorem orchestrator_result_shape_witness:
  "fst (orchestrator_process_query E_ok ''hello'' None)
     = Returns [(''success'', VBool True),
                (''orchestrator_result'', VDict [(''messages'', answer_messages clarifying_question)]),
                (''messages'', answer_messages clarifying_question),
                (''error'', VList [])]
   \<and> map fst [(''success'', VBool True),
              (''orchestrator_result'', VDict [(''messages'', answer_messages clarifying_question)]),
              (''messages'', answer_messages clarifying_question),
              (''error'', VList [])]
     = [''success'', ''orchestrator_result'', ''messages'', ''error'']
   \<and> fst (orchestrator_process_query E_quota ''hello'' None)
     = Returns [(''success'', VBool False), (''orchestrator_result'', VNone),
                (''error'', VList [VStr ''429 quota exceeded''])]
   \<and> map_of [(''success'', VBool False), (''orchestrator_result'', VNone),
             (''error'', VList [VStr ''429 quota exceeded''])] ''messages'' = None"
  using orchestrator_result_shape
      [where E = E_ok and query = "''hello''" and state = None
        and d = "[(''success'', VBool True),
                  (''orchestrator_result'', VDict [(''messages'', answer_messages clarifying_question)]),
                  (''messages'', answer_messages clarifying_question),
                  (''error'', VList [])]"]
    orchestrator_result_shape
      [where E = E_quota and query = "''hello''" and state = None
        and d = "[(''success'', VBool False), (''orchestrator_result'', VNone),
                  (''error'', VList [VStr ''429 quota exceeded''])]"]
    E_ok_orchestrator [of "''hello''" None] E_quota_orchestrator [of "''hello''" None]
  by simp

end
